theory Spec2Isabelle
  imports Main
begin

section \<open>JavaScript values crossing the bridge\<close>

text \<open>
  The bridge exchanges plain data with the native side. A payload typed \<open>any\<close> in the
  TypeScript source is a value of \<open>json\<close>. \<open>JUndefined\<close> is JavaScript's
  \<open>undefined\<close>, the result of reading a property that an object does not have.
  An object is an association list; a property read takes the first binding of the key.
  Numbers are restricted to integers: no definition below computes with them.
\<close>

datatype json =
    JUndefined
  | JNull
  | JBool bool
  | JNum int
  | JStr string
  | JArr "json list"
  | JObj "(string \<times> json) list"

text \<open>What a failing JavaScript expression throws.\<close>

datatype js_error =
    TypeError
  | Thrown json

text \<open>
  \<open>v.k\<close>: reading a property of \<open>undefined\<close> or \<open>null\<close> throws a TypeError; an
  object yields the bound value, or \<open>undefined\<close> when the key is missing; the primitives
  and arrays have none of the keys read by this program and yield \<open>undefined\<close>.
\<close>

fun get_prop :: "json \<Rightarrow> string \<Rightarrow> js_error + json" where
  "get_prop JUndefined k = Inl TypeError"
| "get_prop JNull k = Inl TypeError"
| "get_prop (JObj kvs) k = Inr (case map_of kvs k of None \<Rightarrow> JUndefined | Some v \<Rightarrow> v)"
| "get_prop v k = Inr JUndefined"

text \<open>JavaScript truthiness, as the operator \<open>&&\<close> tests it.\<close>

fun truthy :: "json \<Rightarrow> bool" where
  "truthy JUndefined = False"
| "truthy JNull = False"
| "truthy (JBool b) = b"
| "truthy (JNum n) = (n \<noteq> 0)"
| "truthy (JStr s) = (s \<noteq> [])"
| "truthy (JArr xs) = True"
| "truthy (JObj kvs) = True"

text \<open>\<open>has_field v k\<close>: the object \<open>v\<close> has an own property \<open>k\<close>.\<close>

fun has_field :: "json \<Rightarrow> string \<Rightarrow> bool" where
  "has_field (JObj kvs) k = (k \<in> fst ` set kvs)"
| "has_field v k = False"

text \<open>\<open>xs[i]\<close> on a JavaScript array: \<open>undefined\<close> (here \<open>None\<close>) out of range.\<close>

definition js_index :: "'a list \<Rightarrow> int \<Rightarrow> 'a option" where
  "js_index xs i = (if 0 \<le> i \<and> i < int (length xs) then Some (xs ! nat i) else None)"

section \<open>Aaid\<close>

text \<open>
  \<open>class Aaid\<close>: a name and an ordinal. The constructor is private; the four static
  getters are the only values of the class.
\<close>

record Aaid =
  name :: string
  ordinal :: int

definition aaidAndroid :: "string list" where
  "aaidAndroid = [''F1D0#0001'', ''F1D0#0002'', ''F1D0#0003'', ''F1D0#0004'']"

definition aaidiOS :: "string list" where
  "aaidiOS = [''F1D0#1001'', ''F1D0#1002'', ''F1D0#1003'', ''F1D0#1004'']"

definition PIN :: Aaid where
  "PIN = \<lparr>name = ''PIN'', ordinal = 0\<rparr>"

definition FINGERPRINT :: Aaid where
  "FINGERPRINT = \<lparr>name = ''FINGERPRINT'', ordinal = 1\<rparr>"

definition BIOMETRIC :: Aaid where
  "BIOMETRIC = \<lparr>name = ''BIOMETRIC'', ordinal = 2\<rparr>"

definition DEVICE_PASSCODE :: Aaid where
  "DEVICE_PASSCODE = \<lparr>name = ''DEVICE_PASSCODE'', ordinal = 3\<rparr>"

text \<open>
  \<open>Platform.select\<close> belongs to the react-native library, not to this repository. It is
  given the keys \<open>ios\<close>, \<open>android\<close> and \<open>default\<close>, and returns the entry of the
  running platform \<open>os\<close> (the value of \<open>Platform.OS\<close>), or the default entry when the
  platform has none.
\<close>

definition Platform_select :: "string \<Rightarrow> 'a \<Rightarrow> 'a \<Rightarrow> 'a \<Rightarrow> 'a" where
  "Platform_select os ios android dflt =
     (if os = ''ios'' then ios else if os = ''android'' then android else dflt)"

text \<open>
  \<open>Aaid.rawValue\<close> on platform \<open>os\<close>. The result is \<open>None\<close> where the array read
  would give \<open>undefined\<close>.
\<close>

definition rawValue :: "string \<Rightarrow> Aaid \<Rightarrow> string option" where
  "rawValue os this =
     Platform_select os
       (js_index aaidiOS (ordinal this))
       (js_index aaidAndroid (ordinal this))
       (Some '''')"

section \<open>Error classes and the fingerprint error converter\<close>

text \<open>
  \<open>class AuthCloudApiUserAlreadyRegisteredInAnotherServerError\<close>: the fields and the
  constructor, which stores its two arguments. The optional \<open>cause\<close> is \<open>None\<close> when
  the argument is left out.
\<close>

record AuthCloudApiUserAlreadyRegisteredInAnotherServerError =
  description :: string
  cause :: "string option"

definition new_AuthCloudApiUserAlreadyRegisteredInAnotherServerError ::
  "string \<Rightarrow> string option \<Rightarrow> AuthCloudApiUserAlreadyRegisteredInAnotherServerError" where
  "new_AuthCloudApiUserAlreadyRegisteredInAnotherServerError description' cause' =
     \<lparr>description = description', cause = cause'\<rparr>"

text \<open>
  The class \<open>FingerprintUserVerificationError\<close> is declared in the module
  \<open>./FingerprintUserVerificationError\<close> that the converter imports. A value of it is
  represented by the three constructor arguments of \<open>new FingerprintUserVerificationError(description,
  cause, message)\<close>, named after what the converter passes. They are the property values
  read from the native error object, hence of type \<open>json\<close>.
\<close>

datatype FingerprintUserVerificationError =
  FingerprintUserVerificationError (fp_description: json) (fp_cause: json) (fp_message: json)

text \<open>
  \<open>FingerprintUserVerificationErrorConverter.convert\<close>. The argument is the value of
  \<open>this.error\<close>, the native error object that the base class \<open>ErrorConverter\<close> holds.
  The three property reads happen in the order of the source; each throws on
  \<open>undefined\<close> and \<open>null\<close>. No discriminator is read and there is a single variant.
\<close>

definition FingerprintUserVerificationErrorConverter_convert ::
  "json \<Rightarrow> js_error + FingerprintUserVerificationError" where
  "FingerprintUserVerificationErrorConverter_convert error =
     (case get_prop error ''description'' of
        Inl x \<Rightarrow> Inl x
      | Inr d \<Rightarrow>
          (case get_prop error ''cause'' of
             Inl x \<Rightarrow> Inl x
           | Inr c \<Rightarrow>
               (case get_prop error ''message'' of
                  Inl x \<Rightarrow> Inl x
                | Inr m \<Rightarrow> Inr (FingerprintUserVerificationError d c m))))"

text \<open>
  The error variants of the out-of-band operation domain that are declared:
  \<open>OutOfBandOperationUnknownError\<close>, \<open>OutOfBandOperationTokenAlreadyRedeemed\<close> and
  \<open>OutOfBandOperationTokenExpired\<close> extend \<open>OutOfBandOperationError\<close>, each with the
  constructor \<open>(description: string, cause?: string)\<close>.
\<close>

datatype OutOfBandOperationError =
    OutOfBandOperationUnknownError string "string option"
  | OutOfBandOperationTokenAlreadyRedeemed string "string option"
  | OutOfBandOperationTokenExpired string "string option"

text \<open>
  Modelled from the spec: the native error object that a converter is given. The spec
  (4.4) describes it as "carrying at minimum a type discriminator string, a description,
  and optionally a cause string".
\<close>

datatype native_error =
  NativeError (discriminator: string) (error_description: string) (error_cause: "string option")

text \<open>
  Modelled from the spec: the converter of an error domain that has a mapping table; the
  converter classes of these domains (such as the one of the out-of-band operation
  domain) are declared in modules other than the ones modelled here. The spec (4.4)
  describes "a direct one-to-one mapping table from discriminator string to Error Variant
  constructor for known cases; any unrecognized discriminator maps to that domain's
  Unknown variant, preserving description and cause verbatim". A domain is given by its
  \<open>table\<close> and by the constructor \<open>unknown\<close> of its Unknown variant.
\<close>

definition domain_convert ::
  "(string \<times> (string \<Rightarrow> string option \<Rightarrow> 'v)) list \<Rightarrow> (string \<Rightarrow> string option \<Rightarrow> 'v) \<Rightarrow>
   native_error \<Rightarrow> 'v" where
  "domain_convert table unknown error =
     (case map_of table (discriminator error) of
        Some variant \<Rightarrow> variant (error_description error) (error_cause error)
      | None \<Rightarrow> unknown (error_description error) (error_cause error))"

section \<open>LocalDeviceInformationMessage\<close>

text \<open>
  \<open>class LocalDeviceInformationMessage\<close>. \<open>operationId\<close> is whatever the payload
  holds under that key. \<open>deviceInformation\<close> is the value of
  \<open>data && DeviceInformation.fromJson(data)\<close>: the falsy \<open>data\<close> itself (\<open>Inl\<close>), or
  the decoded device information (\<open>Inr\<close>). The absent value is \<open>Inl JUndefined\<close>.
\<close>

record 'di LocalDeviceInformationMessage =
  operationId :: json
  deviceInformation :: "json + 'di"

text \<open>
  \<open>LocalDeviceInformationMessage.fromJson\<close>. \<open>DeviceInformation.fromJson\<close> belongs to
  the imported module \<open>localData/DeviceInformation\<close> and is a parameter; it may throw.
\<close>

definition LocalDeviceInformationMessage_fromJson ::
  "(json \<Rightarrow> js_error + 'di) \<Rightarrow> json \<Rightarrow> js_error + 'di LocalDeviceInformationMessage" where
  "LocalDeviceInformationMessage_fromJson DeviceInformation_fromJson json =
     (case get_prop json ''operationId'' of
        Inl x \<Rightarrow> Inl x
      | Inr operationId' \<Rightarrow>
          (case get_prop json ''deviceInformation'' of
             Inl x \<Rightarrow> Inl x
           | Inr data \<Rightarrow>
               if truthy data then
                 (case DeviceInformation_fromJson data of
                    Inl x \<Rightarrow> Inl x
                  | Inr di \<Rightarrow> Inr \<lparr>operationId = operationId', deviceInformation = Inr di\<rparr>)
               else Inr \<lparr>operationId = operationId', deviceInformation = Inl data\<rparr>))"

section \<open>The operation cache and the event listener\<close>

text \<open>
  Handlers (selectors and verifiers) are objects supplied by the caller; the bridge only
  stores them and tests their presence. A handler is represented by its object identity.
\<close>

type_synonym objref = nat

text \<open>
  \<open>new UserInteractionPlatformOperationImpl(...)\<close>: the class is imported by
  \<open>OutOfBandAuthenticationImpl\<close>; a value of it is represented by the seven constructor
  arguments, in the order of the call in \<open>execute\<close>. An argument that is \<open>undefined\<close>
  is \<open>None\<close>.
\<close>

record UserInteractionPlatformOperationImpl =
  operationId :: string
  authenticatorSelector :: "objref option"
  accountSelector :: "objref option"
  biometricUserVerifier :: "objref option"
  devicePasscodeUserVerifier :: "objref option"
  fingerprintUserVerifier :: "objref option"
  pinUserVerifier :: "objref option"

text \<open>
  Modelled from the spec: the class \<open>PlatformOperationCache\<close>, which \<open>execute\<close>
  imports from \<open>cache/PlatformOperationCache\<close> and only calls. The spec (3, 4.1)
  describes a single process-wide mapping from operation identifier to cached operation,
  with unique keys.
\<close>

type_synonym PlatformOperationCache = "string \<rightharpoonup> UserInteractionPlatformOperationImpl"

text \<open>
  Modelled from the spec: \<open>PlatformOperationCache.put\<close>. It "inserts (or replaces) the
  entry keyed by the operation's identifier. No error condition; always succeeds."
\<close>

definition cache_put ::
  "UserInteractionPlatformOperationImpl \<Rightarrow> PlatformOperationCache \<Rightarrow> PlatformOperationCache" where
  "cache_put operation c = c(UserInteractionPlatformOperationImpl.operationId operation \<mapsto> operation)"

text \<open>
  Modelled from the spec: \<open>PlatformOperationCache.get\<close>. It "returns the cached operation
  for that identifier, or an empty/absent result if none exists".
\<close>

definition cache_get ::
  "string \<Rightarrow> PlatformOperationCache \<Rightarrow> UserInteractionPlatformOperationImpl option" where
  "cache_get identifier c = c identifier"

text \<open>
  Modelled from the spec: \<open>PlatformOperationCache.delete\<close>. It "removes the entry if
  present; no-op otherwise."
\<close>

definition cache_delete :: "string \<Rightarrow> PlatformOperationCache \<Rightarrow> PlatformOperationCache" where
  "cache_delete identifier c = c(identifier := None)"

text \<open>
  Modelled from the spec: the class \<open>NativeEventListener\<close>, which \<open>execute\<close> imports
  from \<open>event/NativeEventListener\<close> and only calls. The spec (3) describes its state as
  a single boolean "active" flag.
\<close>

record NativeEventListener =
  active :: bool

text \<open>
  Modelled from the spec: \<open>NativeEventListener.start\<close>. It is "idempotent - if already
  subscribed, does nothing", and otherwise establishes the subscription.
\<close>

definition listener_start :: "NativeEventListener \<Rightarrow> NativeEventListener" where
  "listener_start l = (if active l then l else l\<lparr>active := True\<rparr>)"

text \<open>
  Modelled from the spec: \<open>NativeEventListener.stop\<close>. It is "idempotent - unsubscribes
  if subscribed, else no-op."
\<close>

definition listener_stop :: "NativeEventListener \<Rightarrow> NativeEventListener" where
  "listener_stop l = (if active l then l\<lparr>active := False\<rparr> else l)"

section \<open>OutOfBandAuthenticationImpl\<close>

text \<open>
  The outgoing \<open>OutOfBandAuthenticationMessage\<close>: the class is imported; a value of it is
  represented by the eleven constructor arguments, in the order of the call in
  \<open>execute\<close>, each flag named after the field whose presence it reports. The fourth
  argument is the literal \<open>false\<close>.
\<close>

record OutOfBandAuthenticationMessage =
  operationId :: string
  accountSelectorSet :: bool
  authenticatorSelectorSet :: bool
  fourthArgument :: bool
  pinVerifierSet :: bool
  biometricVerifierSet :: bool
  devicePasscodeVerifierSet :: bool
  fingerprintVerifierSet :: bool
  onSuccessSet :: bool
  onErrorSet :: bool
  httpRequestHeaders :: "(string \<times> string) list option"

text \<open>
  A caller's callback runs arbitrary code: applied to its argument it returns normally
  (\<open>None\<close>) or throws (\<open>Some x\<close>).
\<close>

type_synonym 'a callback = "'a \<Rightarrow> js_error option"

text \<open>
  The fields of \<open>OutOfBandAuthenticationImpl\<close>. \<open>httpRequestHeaders\<close> is inherited
  from \<open>HttpOperationImpl\<close>. The private fields \<open>_accountSelector\<close>, ... are written
  \<open>priv_accountSelector\<close>, ...; a field that was never assigned is \<open>undefined\<close>, here
  \<open>None\<close>. \<open>'a\<close> is the type of authorization providers and \<open>'e\<close> the type
  \<open>OperationError\<close>.
\<close>

record ('a, 'e) OutOfBandAuthenticationImpl =
  operationId :: string
  httpRequestHeaders :: "(string \<times> string) list option"
  priv_accountSelector :: "objref option"
  priv_authenticatorSelector :: "objref option"
  priv_pinUserVerifier :: "objref option"
  priv_biometricUserVerifier :: "objref option"
  priv_devicePasscodeUserVerifier :: "objref option"
  priv_fingerprintUserVerifier :: "objref option"
  priv_onSuccess :: "'a option callback option"
  priv_onError :: "'e callback option"

text \<open>
  The constructor: \<open>super()\<close>, then \<open>this.operationId = operationId\<close>. What the
  constructor of the imported base class \<open>HttpOperationImpl\<close> leaves in
  \<open>httpRequestHeaders\<close> is the parameter \<open>headers\<close>. No other field is assigned.
\<close>

definition new_OutOfBandAuthenticationImpl ::
  "(string \<times> string) list option \<Rightarrow> string \<Rightarrow> ('a, 'e) OutOfBandAuthenticationImpl" where
  "new_OutOfBandAuthenticationImpl headers operationId' =
     \<lparr>OutOfBandAuthenticationImpl.operationId = operationId',
      OutOfBandAuthenticationImpl.httpRequestHeaders = headers,
      priv_accountSelector = None,
      priv_authenticatorSelector = None,
      priv_pinUserVerifier = None,
      priv_biometricUserVerifier = None,
      priv_devicePasscodeUserVerifier = None,
      priv_fingerprintUserVerifier = None,
      priv_onSuccess = None,
      priv_onError = None\<rparr>"

text \<open>
  Instances live in a store, so that a method can return the instance it was called on.
  A method takes the address \<open>this\<close> of its receiver and the store, and returns its
  result with the updated store.
\<close>

type_synonym ('a, 'e) store = "nat \<Rightarrow> ('a, 'e) OutOfBandAuthenticationImpl"

definition set_accountSelector ::
  "objref \<Rightarrow> nat \<Rightarrow> ('a, 'e) store \<Rightarrow> nat \<times> ('a, 'e) store" where
  "set_accountSelector accountSelector' this h =
     (this, h(this := (h this)\<lparr>priv_accountSelector := Some accountSelector'\<rparr>))"

definition set_authenticatorSelector ::
  "objref \<Rightarrow> nat \<Rightarrow> ('a, 'e) store \<Rightarrow> nat \<times> ('a, 'e) store" where
  "set_authenticatorSelector authenticatorSelector' this h =
     (this, h(this := (h this)\<lparr>priv_authenticatorSelector := Some authenticatorSelector'\<rparr>))"

definition set_pinUserVerifier ::
  "objref \<Rightarrow> nat \<Rightarrow> ('a, 'e) store \<Rightarrow> nat \<times> ('a, 'e) store" where
  "set_pinUserVerifier pinUserVerifier' this h =
     (this, h(this := (h this)\<lparr>priv_pinUserVerifier := Some pinUserVerifier'\<rparr>))"

definition set_biometricUserVerifier ::
  "objref \<Rightarrow> nat \<Rightarrow> ('a, 'e) store \<Rightarrow> nat \<times> ('a, 'e) store" where
  "set_biometricUserVerifier biometricUserVerifier' this h =
     (this, h(this := (h this)\<lparr>priv_biometricUserVerifier := Some biometricUserVerifier'\<rparr>))"

definition set_devicePasscodeUserVerifier ::
  "objref \<Rightarrow> nat \<Rightarrow> ('a, 'e) store \<Rightarrow> nat \<times> ('a, 'e) store" where
  "set_devicePasscodeUserVerifier devicePasscodeUserVerifier' this h =
     (this, h(this := (h this)\<lparr>priv_devicePasscodeUserVerifier := Some devicePasscodeUserVerifier'\<rparr>))"

definition set_fingerprintUserVerifier ::
  "objref \<Rightarrow> nat \<Rightarrow> ('a, 'e) store \<Rightarrow> nat \<times> ('a, 'e) store" where
  "set_fingerprintUserVerifier fingerprintUserVerifier' this h =
     (this, h(this := (h this)\<lparr>priv_fingerprintUserVerifier := Some fingerprintUserVerifier'\<rparr>))"

definition set_onSuccess ::
  "'a option callback \<Rightarrow> nat \<Rightarrow> ('a, 'e) store \<Rightarrow> nat \<times> ('a, 'e) store" where
  "set_onSuccess onSuccess' this h =
     (this, h(this := (h this)\<lparr>priv_onSuccess := Some onSuccess'\<rparr>))"

definition set_onError ::
  "'e callback \<Rightarrow> nat \<Rightarrow> ('a, 'e) store \<Rightarrow> nat \<times> ('a, 'e) store" where
  "set_onError onError' this h =
     (this, h(this := (h this)\<lparr>priv_onError := Some onError'\<rparr>))"

subsection \<open>execute\<close>

text \<open>
  What \<open>execute\<close> does to the world outside the instance, in the order it does it:
  the calls on the two singletons, the native call, and the calls of the caller's
  callbacks with their arguments.
\<close>

datatype ('a, 'e) event =
    CachePut UserInteractionPlatformOperationImpl
  | NativeCall OutOfBandAuthenticationMessage
  | ListenerStop
  | CacheDelete string
  | OnSuccessCall "'a option"
  | OnErrorCall 'e

text \<open>
  The process-wide state: the two singletons, and the \<open>trace\<close> of what has happened so
  far, oldest event first.
\<close>

record ('a, 'e) world =
  cache :: PlatformOperationCache
  listener :: NativeEventListener
  trace :: "('a, 'e) event list"

definition record_event :: "('a, 'e) event \<Rightarrow> ('a, 'e) world \<Rightarrow> ('a, 'e) world" where
  "record_event ev w = w\<lparr>trace := trace w @ [ev]\<rparr>"

text \<open>\<open>PlatformOperationCache.getInstance().put(operation)\<close>\<close>

definition do_put ::
  "UserInteractionPlatformOperationImpl \<Rightarrow> ('a, 'e) world \<Rightarrow> ('a, 'e) world" where
  "do_put operation w = record_event (CachePut operation) (w\<lparr>cache := cache_put operation (cache w)\<rparr>)"

text \<open>\<open>NativeEventListener.getInstance().stop()\<close>\<close>

definition do_stop :: "('a, 'e) world \<Rightarrow> ('a, 'e) world" where
  "do_stop w = record_event ListenerStop (w\<lparr>listener := listener_stop (listener w)\<rparr>)"

text \<open>\<open>PlatformOperationCache.getInstance().delete(id)\<close>\<close>

definition do_delete :: "string \<Rightarrow> ('a, 'e) world \<Rightarrow> ('a, 'e) world" where
  "do_delete identifier w =
     record_event (CacheDelete identifier) (w\<lparr>cache := cache_delete identifier (cache w)\<rparr>)"

text \<open>The operation that \<open>execute\<close> builds from the fields of \<open>this\<close>.\<close>

definition execute_operation ::
  "('a, 'e) OutOfBandAuthenticationImpl \<Rightarrow> UserInteractionPlatformOperationImpl" where
  "execute_operation this =
     \<lparr>UserInteractionPlatformOperationImpl.operationId = OutOfBandAuthenticationImpl.operationId this,
      authenticatorSelector = priv_authenticatorSelector this,
      accountSelector = priv_accountSelector this,
      biometricUserVerifier = priv_biometricUserVerifier this,
      devicePasscodeUserVerifier = priv_devicePasscodeUserVerifier this,
      fingerprintUserVerifier = priv_fingerprintUserVerifier this,
      pinUserVerifier = priv_pinUserVerifier this\<rparr>"

text \<open>The message that \<open>execute\<close> encodes from the fields of \<open>this\<close>.\<close>

definition execute_message ::
  "('a, 'e) OutOfBandAuthenticationImpl \<Rightarrow> OutOfBandAuthenticationMessage" where
  "execute_message this =
     \<lparr>OutOfBandAuthenticationMessage.operationId = OutOfBandAuthenticationImpl.operationId this,
      accountSelectorSet = (priv_accountSelector this \<noteq> None),
      authenticatorSelectorSet = (priv_authenticatorSelector this \<noteq> None),
      fourthArgument = False,
      pinVerifierSet = (priv_pinUserVerifier this \<noteq> None),
      biometricVerifierSet = (priv_biometricUserVerifier this \<noteq> None),
      devicePasscodeVerifierSet = (priv_devicePasscodeUserVerifier this \<noteq> None),
      fingerprintVerifierSet = (priv_fingerprintUserVerifier this \<noteq> None),
      onSuccessSet = (priv_onSuccess this \<noteq> None),
      onErrorSet = (priv_onError this \<noteq> None),
      OutOfBandAuthenticationMessage.httpRequestHeaders =
        OutOfBandAuthenticationImpl.httpRequestHeaders this\<rparr>"

text \<open>The closure \<open>finish\<close>: stop the listener, then delete the cache entry.\<close>

definition finish ::
  "('a, 'e) OutOfBandAuthenticationImpl \<Rightarrow> ('a, 'e) world \<Rightarrow> ('a, 'e) world" where
  "finish this w = do_delete (OutOfBandAuthenticationImpl.operationId this) (do_stop w)"

text \<open>
  The handler passed to \<open>then\<close>. \<open>OnSuccessMessage.fromJson\<close> is imported and is a
  parameter: it gives the \<open>authorizationProvider\<close> of the decoded message (\<open>None\<close>
  when absent) or throws. The handler's own result is \<open>Some x\<close> when it throws \<open>x\<close>.
  An \<open>undefined\<close> callback is skipped by \<open>?.\<close>.
\<close>

definition on_fulfilled ::
  "(json \<Rightarrow> js_error + 'a option) \<Rightarrow> ('a, 'e) OutOfBandAuthenticationImpl \<Rightarrow> json \<Rightarrow>
   ('a, 'e) world \<Rightarrow> js_error option \<times> ('a, 'e) world" where
  "on_fulfilled OnSuccessMessage_fromJson this data w =
     (let w1 = finish this w in
      case OnSuccessMessage_fromJson data of
        Inl x \<Rightarrow> (Some x, w1)
      | Inr authorizationProvider \<Rightarrow>
          (case priv_onSuccess this of
             None \<Rightarrow> (None, w1)
           | Some cb \<Rightarrow> (cb authorizationProvider, record_event (OnSuccessCall authorizationProvider) w1)))"

text \<open>
  The handler passed to \<open>catch\<close>. \<open>new OperationErrorConverter(error).convert()\<close> is
  imported and is the parameter \<open>convert\<close>: it gives the converted error or throws. When
  it throws, the handler ends there, after \<open>finish\<close> and before the call of the error
  callback.
\<close>

definition on_rejected ::
  "(js_error \<Rightarrow> js_error + 'e) \<Rightarrow> ('a, 'e) OutOfBandAuthenticationImpl \<Rightarrow> js_error \<Rightarrow>
   ('a, 'e) world \<Rightarrow> js_error option \<times> ('a, 'e) world" where
  "on_rejected convert this error w =
     (let w1 = finish this w in
      case convert error of
        Inl x \<Rightarrow> (Some x, w1)
      | Inr operationError \<Rightarrow>
          (case priv_onError this of
             None \<Rightarrow> (None, w1)
           | Some cb \<Rightarrow> (cb operationError, record_event (OnErrorCall operationError) w1)))"

text \<open>
  How the promise returned by the native \<open>oobAuthenticate\<close> ends, and how the promise
  returned by \<open>execute\<close> ends.
\<close>

datatype native_outcome = Resolved json | Rejected js_error | NeverSettled

datatype promise = Fulfilled | RejectedWith js_error | Pending

definition settle :: "js_error option \<times> 'w \<Rightarrow> promise \<times> 'w" where
  "settle r = (case r of (None, w) \<Rightarrow> (Fulfilled, w) | (Some x, w) \<Rightarrow> (RejectedWith x, w))"

text \<open>
  The synchronous part of \<open>execute\<close>, up to and including the call of the native
  \<open>oobAuthenticate\<close>: build the operation, put it into the cache, encode the message,
  call the native side with it.
\<close>

definition execute_start ::
  "('a, 'e) OutOfBandAuthenticationImpl \<Rightarrow> ('a, 'e) world \<Rightarrow> ('a, 'e) world" where
  "execute_start this w =
     (let operation = execute_operation this;
          w1 = do_put operation w;
          message = execute_message this
      in record_event (NativeCall message) w1)"

text \<open>
  \<open>OutOfBandAuthenticationImpl.execute\<close>, given how the native promise \<open>p\<close> ends.
  The chain \<open>p.then(f).catch(g)\<close> runs \<open>f\<close> when \<open>p\<close> is fulfilled, and \<open>g\<close> when
  \<open>p\<close> is rejected or when \<open>f\<close> throws; the promise of \<open>execute\<close> is rejected only
  when \<open>g\<close> throws. While \<open>p\<close> is not settled, neither handler runs.
\<close>

definition execute ::
  "(json \<Rightarrow> js_error + 'a option) \<Rightarrow> (js_error \<Rightarrow> js_error + 'e) \<Rightarrow>
   ('a, 'e) OutOfBandAuthenticationImpl \<Rightarrow> native_outcome \<Rightarrow>
   ('a, 'e) world \<Rightarrow> promise \<times> ('a, 'e) world" where
  "execute OnSuccessMessage_fromJson convert this outcome w =
     (let w2 = execute_start this w in
      case outcome of
        NeverSettled \<Rightarrow> (Pending, w2)
      | Resolved data \<Rightarrow>
          (case on_fulfilled OnSuccessMessage_fromJson this data w2 of
             (None, w3) \<Rightarrow> (Fulfilled, w3)
           | (Some x, w3) \<Rightarrow> settle (on_rejected convert this x w3))
      | Rejected error \<Rightarrow> settle (on_rejected convert this error w2))"

text \<open>How often each callback was invoked in a trace.\<close>

fun is_success_call :: "('a, 'e) event \<Rightarrow> bool" where
  "is_success_call (OnSuccessCall a) = True"
| "is_success_call ev = False"

fun is_error_call :: "('a, 'e) event \<Rightarrow> bool" where
  "is_error_call (OnErrorCall e) = True"
| "is_error_call ev = False"

definition success_calls :: "('a, 'e) event list \<Rightarrow> nat" where
  "success_calls tr = length (filter is_success_call tr)"

definition error_calls :: "('a, 'e) event list \<Rightarrow> nat" where
  "error_calls tr = length (filter is_error_call tr)"

text \<open>
  \<open>occurs_before a b tr\<close>: \<open>a\<close> occurs in \<open>tr\<close>, and \<open>b\<close> occurs after the first
  occurrence of \<open>a\<close>.
\<close>

definition occurs_before :: "'x \<Rightarrow> 'x \<Rightarrow> 'x list \<Rightarrow> bool" where
  "occurs_before a b tr = (b \<in> set (drop 1 (dropWhile (\<lambda>x. x \<noteq> a) tr)))"

section \<open>Properties of Aaid\<close>

text \<open>
  Claim C9. The four Aaid constants have the ordinals 0 to 3 and both platform arrays
  have four entries, so the array read of \<open>rawValue\<close> is always in range and the result
  is a defined string: on iOS the entry \<open>F1D0#1001\<close> to \<open>F1D0#1004\<close> at the constant's
  ordinal, on Android the entry \<open>F1D0#0001\<close> to \<open>F1D0#0004\<close>, and the empty string
  on every other platform.
\<close>

theorem Aaid_rawValue_defined:
  "ordinal PIN = 0 \<and> ordinal FINGERPRINT = 1 \<and> ordinal BIOMETRIC = 2
   \<and> ordinal DEVICE_PASSCODE = 3
   \<and> length aaidAndroid = 4 \<and> length aaidiOS = 4
   \<and> rawValue os PIN =
        Some (if os = ''ios'' then ''F1D0#1001''
              else if os = ''android'' then ''F1D0#0001'' else '''')
   \<and> rawValue os FINGERPRINT =
        Some (if os = ''ios'' then ''F1D0#1002''
              else if os = ''android'' then ''F1D0#0002'' else '''')
   \<and> rawValue os BIOMETRIC =
        Some (if os = ''ios'' then ''F1D0#1003''
              else if os = ''android'' then ''F1D0#0003'' else '''')
   \<and> rawValue os DEVICE_PASSCODE =
        Some (if os = ''ios'' then ''F1D0#1004''
              else if os = ''android'' then ''F1D0#0004'' else '''')"
  by (simp add: PIN_def FINGERPRINT_def BIOMETRIC_def DEVICE_PASSCODE_def aaidAndroid_def
      aaidiOS_def rawValue_def Platform_select_def js_index_def)

section \<open>Properties of the error converter\<close>

text \<open>
  Claim C4. For every error domain, given by its mapping table and its Unknown variant,
  and every native error whose discriminator is not a key of the table, the domain's
  converter returns the Unknown variant with the error's description and cause as they
  are. The fingerprint user-verification converter reads no discriminator (it has no
  table): it returns the one variant of its domain for every native error object,
  whatever its properties, with the object's description and cause as they are.
\<close>

theorem domain_convert_unknown:
  assumes "discriminator error \<notin> fst ` set table"
  shows "domain_convert table unknown error
           = unknown (error_description error) (error_cause error)
         \<and> FingerprintUserVerificationErrorConverter_convert (JObj kvs) =
             Inr (FingerprintUserVerificationError
                    (case map_of kvs ''description'' of None \<Rightarrow> JUndefined | Some v \<Rightarrow> v)
                    (case map_of kvs ''cause'' of None \<Rightarrow> JUndefined | Some v \<Rightarrow> v)
                    (case map_of kvs ''message'' of None \<Rightarrow> JUndefined | Some v \<Rightarrow> v))"
proof -
  from assms have "map_of table (discriminator error) = None"
    by (simp add: map_of_eq_None_iff)
  then show ?thesis
    by (simp add: domain_convert_def FingerprintUserVerificationErrorConverter_convert_def)
qed

theorem domain_convert_unknown_witness:
  "discriminator (NativeError ''somethingNew'' ''token rejected'' (Some ''server''))
     \<notin> fst ` set [(''tokenExpired'', OutOfBandOperationTokenExpired)]
   \<and> domain_convert
        [(''tokenExpired'', OutOfBandOperationTokenExpired)]
        OutOfBandOperationUnknownError
        (NativeError ''somethingNew'' ''token rejected'' (Some ''server''))
      = OutOfBandOperationUnknownError ''token rejected'' (Some ''server'')
   \<and> domain_convert
        [(''tokenExpired'', OutOfBandOperationTokenExpired)]
        OutOfBandOperationUnknownError
        (NativeError ''tokenExpired'' ''token rejected'' None)
      = OutOfBandOperationTokenExpired ''token rejected'' None
   \<and> FingerprintUserVerificationErrorConverter_convert
        (JObj [(''type'', JStr ''somethingNew''), (''description'', JStr ''sensor failed'')])
      = Inr (FingerprintUserVerificationError (JStr ''sensor failed'') JUndefined JUndefined)"
proof -
  have h: "discriminator (NativeError ''somethingNew'' ''token rejected'' (Some ''server''))
     \<notin> fst ` set [(''tokenExpired'', OutOfBandOperationTokenExpired)]"
    by simp
  show ?thesis
    using h domain_convert_unknown
      [OF h, of OutOfBandOperationUnknownError
         "[(''type'', JStr ''somethingNew''), (''description'', JStr ''sensor failed'')]"]
    by (simp add: domain_convert_def)
qed

lemma get_prop_total:
  "v \<noteq> JUndefined \<Longrightarrow> v \<noteq> JNull \<Longrightarrow> \<exists>r. get_prop v k = Inr r"
  by (cases v) simp_all

text \<open>
  Claim C5. The converter is total on native error objects: for every input other than
  \<open>undefined\<close> and \<open>null\<close>, \<open>convert\<close> returns a variant of its domain and does not
  throw, and the variant carries the input's description and cause. The constructor of
  an error variant (here \<open>AuthCloudApiUserAlreadyRegisteredInAnotherServerError\<close>)
  stores the description and the cause it is given.
\<close>

theorem convert_total:
  assumes "error \<noteq> JUndefined" and "error \<noteq> JNull"
  shows "(\<exists>r. FingerprintUserVerificationErrorConverter_convert error = Inr r
            \<and> get_prop error ''description'' = Inr (fp_description r)
            \<and> get_prop error ''cause'' = Inr (fp_cause r))
         \<and> description (new_AuthCloudApiUserAlreadyRegisteredInAnotherServerError d c) = d
         \<and> cause (new_AuthCloudApiUserAlreadyRegisteredInAnotherServerError d c) = c"
proof -
  obtain d' where d: "get_prop error ''description'' = Inr d'"
    using get_prop_total [OF assms] by blast
  obtain c' where c: "get_prop error ''cause'' = Inr c'"
    using get_prop_total [OF assms] by blast
  obtain m' where m: "get_prop error ''message'' = Inr m'"
    using get_prop_total [OF assms] by blast
  show ?thesis
    by (simp add: FingerprintUserVerificationErrorConverter_convert_def d c m
        new_AuthCloudApiUserAlreadyRegisteredInAnotherServerError_def)
qed

theorem convert_total_witness:
  "JObj [(''type'', JStr ''SomethingNew''), (''description'', JStr ''sensor failed''),
         (''cause'', JStr ''hardware'')] \<noteq> JUndefined
   \<and> JObj [(''type'', JStr ''SomethingNew''), (''description'', JStr ''sensor failed''),
           (''cause'', JStr ''hardware'')] \<noteq> JNull
   \<and> FingerprintUserVerificationErrorConverter_convert
        (JObj [(''type'', JStr ''SomethingNew''), (''description'', JStr ''sensor failed''),
               (''cause'', JStr ''hardware'')])
      = Inr (FingerprintUserVerificationError (JStr ''sensor failed'') (JStr ''hardware'') JUndefined)"
  using convert_total
    [of "JObj [(''type'', JStr ''SomethingNew''), (''description'', JStr ''sensor failed''),
               (''cause'', JStr ''hardware'')]"]
  by (simp add: FingerprintUserVerificationErrorConverter_convert_def)

section \<open>Properties of the message codec\<close>

text \<open>
  Claim C6. Decoding a payload object that has no \<open>deviceInformation\<close> field succeeds:
  \<open>LocalDeviceInformationMessage.fromJson\<close> returns a message whose
  \<open>deviceInformation\<close> is absent (\<open>undefined\<close>) and whose \<open>operationId\<close> is the
  payload's \<open>operationId\<close>; \<open>DeviceInformation.fromJson\<close> is not called.
\<close>

theorem fromJson_missing_deviceInformation:
  assumes "json = JObj kvs" and "\<not> has_field json ''deviceInformation''"
  shows "\<exists>m. LocalDeviceInformationMessage_fromJson DeviceInformation_fromJson json = Inr m
           \<and> deviceInformation m = Inl JUndefined
           \<and> get_prop json ''operationId'' = Inr (LocalDeviceInformationMessage.operationId m)"
proof -
  from assms have "map_of kvs ''deviceInformation'' = None"
    by (simp add: map_of_eq_None_iff)
  with assms(1) show ?thesis
    by (simp add: LocalDeviceInformationMessage_fromJson_def)
qed

theorem fromJson_missing_deviceInformation_witness:
  "\<not> has_field (JObj [(''operationId'', JStr ''op-7'')]) ''deviceInformation''
   \<and> LocalDeviceInformationMessage_fromJson (\<lambda>data. Inl TypeError :: js_error + json)
        (JObj [(''operationId'', JStr ''op-7'')])
      = Inr \<lparr>LocalDeviceInformationMessage.operationId = JStr ''op-7'',
             deviceInformation = Inl JUndefined\<rparr>"
  using fromJson_missing_deviceInformation
    [of "JObj [(''operationId'', JStr ''op-7'')]" "[(''operationId'', JStr ''op-7'')]"
        "\<lambda>data. Inl TypeError :: js_error + json"]
  by (simp add: LocalDeviceInformationMessage_fromJson_def)

text \<open>
  Claim C3. The encoded authentication message reports each capability as present
  exactly when the corresponding selector or verifier field of the operation is
  assigned. For an operation with only the PIN verifier assigned, the PIN-verifier flag is
  true and every other capability flag is false.
\<close>

theorem execute_message_capability_flags:
  "accountSelectorSet (execute_message this) = (priv_accountSelector this \<noteq> None)
   \<and> authenticatorSelectorSet (execute_message this) = (priv_authenticatorSelector this \<noteq> None)
   \<and> pinVerifierSet (execute_message this) = (priv_pinUserVerifier this \<noteq> None)
   \<and> biometricVerifierSet (execute_message this) = (priv_biometricUserVerifier this \<noteq> None)
   \<and> devicePasscodeVerifierSet (execute_message this)
       = (priv_devicePasscodeUserVerifier this \<noteq> None)
   \<and> fingerprintVerifierSet (execute_message this) = (priv_fingerprintUserVerifier this \<noteq> None)
   \<and> fourthArgument (execute_message this) = False
   \<and> (priv_pinUserVerifier this \<noteq> None \<and> priv_accountSelector this = None
        \<and> priv_authenticatorSelector this = None \<and> priv_biometricUserVerifier this = None
        \<and> priv_devicePasscodeUserVerifier this = None \<and> priv_fingerprintUserVerifier this = None
       \<longrightarrow> pinVerifierSet (execute_message this)
           \<and> \<not> accountSelectorSet (execute_message this)
           \<and> \<not> authenticatorSelectorSet (execute_message this)
           \<and> \<not> fourthArgument (execute_message this)
           \<and> \<not> biometricVerifierSet (execute_message this)
           \<and> \<not> devicePasscodeVerifierSet (execute_message this)
           \<and> \<not> fingerprintVerifierSet (execute_message this))"
  by (simp add: execute_message_def)

theorem execute_message_capability_flags_witness:
  "(let this = snd (set_pinUserVerifier 7 0
                      (\<lambda>a. new_OutOfBandAuthenticationImpl None ''op-1''
                         :: (string, string) OutOfBandAuthenticationImpl)) 0
    in priv_pinUserVerifier this \<noteq> None \<and> priv_accountSelector this = None
       \<and> priv_authenticatorSelector this = None \<and> priv_biometricUserVerifier this = None
       \<and> priv_devicePasscodeUserVerifier this = None \<and> priv_fingerprintUserVerifier this = None
       \<and> execute_message this
          = \<lparr>OutOfBandAuthenticationMessage.operationId = ''op-1'',
             accountSelectorSet = False, authenticatorSelectorSet = False,
             fourthArgument = False, pinVerifierSet = True, biometricVerifierSet = False,
             devicePasscodeVerifierSet = False, fingerprintVerifierSet = False,
             onSuccessSet = False, onErrorSet = False,
             OutOfBandAuthenticationMessage.httpRequestHeaders = None\<rparr>)"
  using execute_message_capability_flags
    [of "snd (set_pinUserVerifier 7 0
                (\<lambda>a. new_OutOfBandAuthenticationImpl None ''op-1''
                   :: (string, string) OutOfBandAuthenticationImpl)) 0"]
  by (simp add: execute_message_def set_pinUserVerifier_def new_OutOfBandAuthenticationImpl_def)

section \<open>Properties of the operation cache\<close>

text \<open>
  Claim C7. After \<open>put(op)\<close>, \<open>get\<close> of the operation's identifier returns exactly the
  operation that was put, whatever the cache held before; \<open>put\<close> has no failure case; an
  entry already stored under the same identifier is replaced, and the keys of the cache
  are the old keys and the identifier.
\<close>

theorem cache_put_then_get:
  "cache_get (UserInteractionPlatformOperationImpl.operationId operation)
     (cache_put operation c) = Some operation
   \<and> cache_put operation
       (cache_put (other\<lparr>UserInteractionPlatformOperationImpl.operationId :=
                            UserInteractionPlatformOperationImpl.operationId operation\<rparr>) c)
     = cache_put operation c
   \<and> dom (cache_put operation c)
     = insert (UserInteractionPlatformOperationImpl.operationId operation) (dom c)"
  by (simp add: cache_get_def cache_put_def)

section \<open>Properties of the configuration setters\<close>

text \<open>
  Claim C10. Each of the eight configuration setters returns the instance it was called
  on, assigns its argument to its own private field, and leaves the operation
  identifier, the request headers and every other private field of the instance as they
  were; no other instance of the store changes (putting the old instance back gives the
  old store).
\<close>

theorem setters_assign_own_field_only:
  "(let (r, h') = set_accountSelector accountSelector' this h; old = h this; new = h' this in
        r = this \<and> priv_accountSelector new = Some accountSelector'
      \<and> OutOfBandAuthenticationImpl.operationId new = OutOfBandAuthenticationImpl.operationId old
      \<and> OutOfBandAuthenticationImpl.httpRequestHeaders new = OutOfBandAuthenticationImpl.httpRequestHeaders old
      \<and> priv_authenticatorSelector new = priv_authenticatorSelector old
      \<and> priv_pinUserVerifier new = priv_pinUserVerifier old
      \<and> priv_biometricUserVerifier new = priv_biometricUserVerifier old
      \<and> priv_devicePasscodeUserVerifier new = priv_devicePasscodeUserVerifier old
      \<and> priv_fingerprintUserVerifier new = priv_fingerprintUserVerifier old
      \<and> priv_onSuccess new = priv_onSuccess old
      \<and> priv_onError new = priv_onError old
      \<and> h'(this := old) = h)
   \<and> (let (r, h') = set_authenticatorSelector authenticatorSelector' this h; old = h this; new = h' this in
        r = this \<and> priv_authenticatorSelector new = Some authenticatorSelector'
      \<and> OutOfBandAuthenticationImpl.operationId new = OutOfBandAuthenticationImpl.operationId old
      \<and> OutOfBandAuthenticationImpl.httpRequestHeaders new = OutOfBandAuthenticationImpl.httpRequestHeaders old
      \<and> priv_accountSelector new = priv_accountSelector old
      \<and> priv_pinUserVerifier new = priv_pinUserVerifier old
      \<and> priv_biometricUserVerifier new = priv_biometricUserVerifier old
      \<and> priv_devicePasscodeUserVerifier new = priv_devicePasscodeUserVerifier old
      \<and> priv_fingerprintUserVerifier new = priv_fingerprintUserVerifier old
      \<and> priv_onSuccess new = priv_onSuccess old
      \<and> priv_onError new = priv_onError old
      \<and> h'(this := old) = h)
   \<and> (let (r, h') = set_pinUserVerifier pinUserVerifier' this h; old = h this; new = h' this in
        r = this \<and> priv_pinUserVerifier new = Some pinUserVerifier'
      \<and> OutOfBandAuthenticationImpl.operationId new = OutOfBandAuthenticationImpl.operationId old
      \<and> OutOfBandAuthenticationImpl.httpRequestHeaders new = OutOfBandAuthenticationImpl.httpRequestHeaders old
      \<and> priv_accountSelector new = priv_accountSelector old
      \<and> priv_authenticatorSelector new = priv_authenticatorSelector old
      \<and> priv_biometricUserVerifier new = priv_biometricUserVerifier old
      \<and> priv_devicePasscodeUserVerifier new = priv_devicePasscodeUserVerifier old
      \<and> priv_fingerprintUserVerifier new = priv_fingerprintUserVerifier old
      \<and> priv_onSuccess new = priv_onSuccess old
      \<and> priv_onError new = priv_onError old
      \<and> h'(this := old) = h)
   \<and> (let (r, h') = set_biometricUserVerifier biometricUserVerifier' this h; old = h this; new = h' this in
        r = this \<and> priv_biometricUserVerifier new = Some biometricUserVerifier'
      \<and> OutOfBandAuthenticationImpl.operationId new = OutOfBandAuthenticationImpl.operationId old
      \<and> OutOfBandAuthenticationImpl.httpRequestHeaders new = OutOfBandAuthenticationImpl.httpRequestHeaders old
      \<and> priv_accountSelector new = priv_accountSelector old
      \<and> priv_authenticatorSelector new = priv_authenticatorSelector old
      \<and> priv_pinUserVerifier new = priv_pinUserVerifier old
      \<and> priv_devicePasscodeUserVerifier new = priv_devicePasscodeUserVerifier old
      \<and> priv_fingerprintUserVerifier new = priv_fingerprintUserVerifier old
      \<and> priv_onSuccess new = priv_onSuccess old
      \<and> priv_onError new = priv_onError old
      \<and> h'(this := old) = h)
   \<and> (let (r, h') = set_devicePasscodeUserVerifier devicePasscodeUserVerifier' this h; old = h this; new = h' this in
        r = this \<and> priv_devicePasscodeUserVerifier new = Some devicePasscodeUserVerifier'
      \<and> OutOfBandAuthenticationImpl.operationId new = OutOfBandAuthenticationImpl.operationId old
      \<and> OutOfBandAuthenticationImpl.httpRequestHeaders new = OutOfBandAuthenticationImpl.httpRequestHeaders old
      \<and> priv_accountSelector new = priv_accountSelector old
      \<and> priv_authenticatorSelector new = priv_authenticatorSelector old
      \<and> priv_pinUserVerifier new = priv_pinUserVerifier old
      \<and> priv_biometricUserVerifier new = priv_biometricUserVerifier old
      \<and> priv_fingerprintUserVerifier new = priv_fingerprintUserVerifier old
      \<and> priv_onSuccess new = priv_onSuccess old
      \<and> priv_onError new = priv_onError old
      \<and> h'(this := old) = h)
   \<and> (let (r, h') = set_fingerprintUserVerifier fingerprintUserVerifier' this h; old = h this; new = h' this in
        r = this \<and> priv_fingerprintUserVerifier new = Some fingerprintUserVerifier'
      \<and> OutOfBandAuthenticationImpl.operationId new = OutOfBandAuthenticationImpl.operationId old
      \<and> OutOfBandAuthenticationImpl.httpRequestHeaders new = OutOfBandAuthenticationImpl.httpRequestHeaders old
      \<and> priv_accountSelector new = priv_accountSelector old
      \<and> priv_authenticatorSelector new = priv_authenticatorSelector old
      \<and> priv_pinUserVerifier new = priv_pinUserVerifier old
      \<and> priv_biometricUserVerifier new = priv_biometricUserVerifier old
      \<and> priv_devicePasscodeUserVerifier new = priv_devicePasscodeUserVerifier old
      \<and> priv_onSuccess new = priv_onSuccess old
      \<and> priv_onError new = priv_onError old
      \<and> h'(this := old) = h)
   \<and> (let (r, h') = set_onSuccess onSuccess' this h; old = h this; new = h' this in
        r = this \<and> priv_onSuccess new = Some onSuccess'
      \<and> OutOfBandAuthenticationImpl.operationId new = OutOfBandAuthenticationImpl.operationId old
      \<and> OutOfBandAuthenticationImpl.httpRequestHeaders new = OutOfBandAuthenticationImpl.httpRequestHeaders old
      \<and> priv_accountSelector new = priv_accountSelector old
      \<and> priv_authenticatorSelector new = priv_authenticatorSelector old
      \<and> priv_pinUserVerifier new = priv_pinUserVerifier old
      \<and> priv_biometricUserVerifier new = priv_biometricUserVerifier old
      \<and> priv_devicePasscodeUserVerifier new = priv_devicePasscodeUserVerifier old
      \<and> priv_fingerprintUserVerifier new = priv_fingerprintUserVerifier old
      \<and> priv_onError new = priv_onError old
      \<and> h'(this := old) = h)
   \<and> (let (r, h') = set_onError onError' this h; old = h this; new = h' this in
        r = this \<and> priv_onError new = Some onError'
      \<and> OutOfBandAuthenticationImpl.operationId new = OutOfBandAuthenticationImpl.operationId old
      \<and> OutOfBandAuthenticationImpl.httpRequestHeaders new = OutOfBandAuthenticationImpl.httpRequestHeaders old
      \<and> priv_accountSelector new = priv_accountSelector old
      \<and> priv_authenticatorSelector new = priv_authenticatorSelector old
      \<and> priv_pinUserVerifier new = priv_pinUserVerifier old
      \<and> priv_biometricUserVerifier new = priv_biometricUserVerifier old
      \<and> priv_devicePasscodeUserVerifier new = priv_devicePasscodeUserVerifier old
      \<and> priv_fingerprintUserVerifier new = priv_fingerprintUserVerifier old
      \<and> priv_onSuccess new = priv_onSuccess old
      \<and> h'(this := old) = h)"
  by (simp add: set_accountSelector_def set_authenticatorSelector_def set_pinUserVerifier_def set_biometricUserVerifier_def
      set_devicePasscodeUserVerifier_def set_fingerprintUserVerifier_def set_onSuccess_def set_onError_def)

section \<open>Properties of execute\<close>

lemma finish_trace:
  "trace (finish this w) =
     trace w @ [ListenerStop, CacheDelete (OutOfBandAuthenticationImpl.operationId this)]"
  by (simp add: finish_def do_delete_def do_stop_def record_event_def)

lemma finish_cache:
  "cache (finish this w) = cache_delete (OutOfBandAuthenticationImpl.operationId this) (cache w)"
  by (simp add: finish_def do_delete_def do_stop_def record_event_def)

lemma finish_listener: "listener (finish this w) = listener_stop (listener w)"
  by (simp add: finish_def do_delete_def do_stop_def record_event_def)

lemma on_rejected_trace:
  "trace (snd (on_rejected conv this error w)) =
     trace w @ [ListenerStop, CacheDelete (OutOfBandAuthenticationImpl.operationId this)]
       @ (case conv error of
            Inl y \<Rightarrow> []
          | Inr oe \<Rightarrow> (case priv_onError this of None \<Rightarrow> [] | Some cb \<Rightarrow> [OnErrorCall oe]))"
  by (simp add: on_rejected_def Let_def finish_trace record_event_def
      split: option.split sum.split)

lemma on_rejected_cache:
  "cache (snd (on_rejected conv this error w)) =
     cache_delete (OutOfBandAuthenticationImpl.operationId this) (cache w)"
  by (simp add: on_rejected_def Let_def finish_cache record_event_def
      split: option.split sum.split)

lemma on_rejected_listener:
  "listener (snd (on_rejected conv this error w)) = listener_stop (listener w)"
  by (simp add: on_rejected_def Let_def finish_listener record_event_def
      split: option.split sum.split)

lemma on_fulfilled_trace:
  "trace (snd (on_fulfilled dec this data w)) =
     trace w @ [ListenerStop, CacheDelete (OutOfBandAuthenticationImpl.operationId this)]
       @ (case dec data of
            Inl x \<Rightarrow> []
          | Inr ap \<Rightarrow> (case priv_onSuccess this of None \<Rightarrow> [] | Some cb \<Rightarrow> [OnSuccessCall ap]))"
  by (simp add: on_fulfilled_def Let_def finish_trace record_event_def
      split: option.split sum.split)

lemma on_fulfilled_result:
  "fst (on_fulfilled dec this data w) =
     (case dec data of
        Inl x \<Rightarrow> Some x
      | Inr ap \<Rightarrow> (case priv_onSuccess this of None \<Rightarrow> None | Some cb \<Rightarrow> cb ap))"
  by (simp add: on_fulfilled_def Let_def split: option.split sum.split)

lemma on_fulfilled_cache:
  "cache (snd (on_fulfilled dec this data w)) =
     cache_delete (OutOfBandAuthenticationImpl.operationId this) (cache w)"
  by (simp add: on_fulfilled_def Let_def finish_cache record_event_def
      split: option.split sum.split)

lemma on_fulfilled_listener:
  "listener (snd (on_fulfilled dec this data w)) = listener_stop (listener w)"
  by (simp add: on_fulfilled_def Let_def finish_listener record_event_def
      split: option.split sum.split)

lemma snd_settle: "snd (settle r) = snd r"
  by (cases r) (simp add: settle_def split: option.split)

lemma execute_never: "execute dec conv this NeverSettled w = (Pending, execute_start this w)"
  by (simp add: execute_def Let_def)

lemma execute_rejected:
  "execute dec conv this (Rejected error) w =
     settle (on_rejected conv this error (execute_start this w))"
  by (simp add: execute_def Let_def)

lemma execute_resolved:
  "execute dec conv this (Resolved data) w =
     (case on_fulfilled dec this data (execute_start this w) of
        (None, w3) \<Rightarrow> (Fulfilled, w3)
      | (Some x, w3) \<Rightarrow> settle (on_rejected conv this x w3))"
  by (simp add: execute_def Let_def)

lemma execute_resolved_world:
  "snd (execute dec conv this (Resolved data) w) =
     (case fst (on_fulfilled dec this data (execute_start this w)) of
        None \<Rightarrow> snd (on_fulfilled dec this data (execute_start this w))
      | Some x \<Rightarrow>
          snd (on_rejected conv this x (snd (on_fulfilled dec this data (execute_start this w)))))"
  by (cases "on_fulfilled dec this data (execute_start this w)")
    (simp add: execute_resolved snd_settle split: option.split)

lemma execute_start_trace:
  "trace (execute_start this w) =
     trace w @ [CachePut (execute_operation this), NativeCall (execute_message this)]"
  by (simp add: execute_start_def Let_def do_put_def record_event_def)

lemma execute_start_cache:
  "cache (execute_start this w) = cache_put (execute_operation this) (cache w)"
  by (simp add: execute_start_def Let_def do_put_def record_event_def)

lemma execute_start_listener: "listener (execute_start this w) = listener w"
  by (simp add: execute_start_def Let_def do_put_def record_event_def)

lemma listener_stop_inactive: "\<not> active (listener_stop l)"
  by (simp add: listener_stop_def)

lemma execute_rejected_trace:
  "trace (snd (execute dec conv this (Rejected error) w)) =
     trace w @ [CachePut (execute_operation this), NativeCall (execute_message this),
                ListenerStop, CacheDelete (OutOfBandAuthenticationImpl.operationId this)]
       @ (case conv error of
            Inl y \<Rightarrow> []
          | Inr oe \<Rightarrow> (case priv_onError this of None \<Rightarrow> [] | Some cb \<Rightarrow> [OnErrorCall oe]))"
  by (simp add: execute_rejected snd_settle on_rejected_trace execute_start_trace)

lemma execute_resolved_trace:
  "trace (snd (execute dec conv this (Resolved data) w)) =
     trace w @ [CachePut (execute_operation this), NativeCall (execute_message this),
                ListenerStop, CacheDelete (OutOfBandAuthenticationImpl.operationId this)]
       @ (case dec data of
            Inl x \<Rightarrow>
              [ListenerStop, CacheDelete (OutOfBandAuthenticationImpl.operationId this)]
                @ (case conv x of
                     Inl y \<Rightarrow> []
                   | Inr oe \<Rightarrow>
                       (case priv_onError this of None \<Rightarrow> [] | Some cb \<Rightarrow> [OnErrorCall oe]))
          | Inr ap \<Rightarrow>
              (case priv_onSuccess this of
                 None \<Rightarrow> []
               | Some cb \<Rightarrow>
                   OnSuccessCall ap #
                   (case cb ap of
                      None \<Rightarrow> []
                    | Some x \<Rightarrow>
                        [ListenerStop, CacheDelete (OutOfBandAuthenticationImpl.operationId this)]
                          @ (case conv x of
                               Inl y \<Rightarrow> []
                             | Inr oe \<Rightarrow>
                                 (case priv_onError this of
                                    None \<Rightarrow> [] | Some cb' \<Rightarrow> [OnErrorCall oe])))))"
  by (simp add: execute_resolved_world on_fulfilled_result on_fulfilled_trace on_rejected_trace
      execute_start_trace split: option.split sum.split)

lemma execute_resolved_cache:
  "cache (snd (execute dec conv this (Resolved data) w))
     (OutOfBandAuthenticationImpl.operationId this) = None"
  by (simp add: execute_resolved_world on_fulfilled_cache on_rejected_cache cache_delete_def
      split: option.split)

lemma execute_resolved_listener:
  "\<not> active (listener (snd (execute dec conv this (Resolved data) w)))"
  by (simp add: execute_resolved_world on_fulfilled_listener on_rejected_listener
      listener_stop_inactive split: option.split)

text \<open>
  Claim C8. The operation identifier of the instance is the correlation key throughout
  \<open>execute\<close>: the operation put into the cache carries it and is stored under it, the
  encoded message carries it, the put comes first and the native call with that message
  second, before anything else \<open>execute\<close> does, and while the native call is pending
  the cache holds the operation under that identifier.
\<close>

theorem execute_operationId_correlation:
  "(\<exists>rest. trace (snd (execute dec conv this outcome w)) =
      trace w @ [CachePut (execute_operation this), NativeCall (execute_message this)] @ rest)
   \<and> UserInteractionPlatformOperationImpl.operationId (execute_operation this)
       = OutOfBandAuthenticationImpl.operationId this
   \<and> OutOfBandAuthenticationMessage.operationId (execute_message this)
       = OutOfBandAuthenticationImpl.operationId this
   \<and> execute dec conv this NeverSettled w = (Pending, execute_start this w)
   \<and> cache_get (OutOfBandAuthenticationImpl.operationId this) (cache (execute_start this w))
       = Some (execute_operation this)"
proof -
  have "\<exists>rest. trace (snd (execute dec conv this outcome w)) =
      trace w @ [CachePut (execute_operation this), NativeCall (execute_message this)] @ rest"
  proof (cases outcome)
    case (Resolved data)
    then show ?thesis by (simp add: execute_resolved_trace)
  next
    case (Rejected error)
    then show ?thesis by (simp add: execute_rejected_trace)
  next
    case NeverSettled
    then show ?thesis by (simp add: execute_never execute_start_trace)
  qed
  then show ?thesis
    by (simp add: execute_never execute_start_cache cache_get_def cache_put_def
        execute_operation_def execute_message_def)
qed

text \<open>
  Claim C1, as the code has it. When the native call settles, \<open>execute\<close> first runs
  \<open>finish\<close>: it stops the event listener, whatever the cache holds, and then deletes the
  operation's entry from the cache. Only after that is a callback invoked: the success
  callback (if configured) with the decoded authorization provider when the call
  succeeded and the payload decodes, the error callback (if configured) with the
  converted error when the call failed and the converter returns. When the success
  handler throws (the payload does not decode, or the success callback throws), the
  error handler runs next and does the same: \<open>finish\<close> first, then the error callback.
  Afterwards the cache has no entry for the operation and the listener is stopped.
\<close>

theorem execute_finish_before_callback:
  "(let identifier = OutOfBandAuthenticationImpl.operationId this;
        started = [CachePut (execute_operation this), NativeCall (execute_message this)];
        error_handler = (\<lambda>x.
          [ListenerStop, CacheDelete identifier]
            @ (case conv x of
                 Inl y \<Rightarrow> []
               | Inr oe \<Rightarrow> (case priv_onError this of None \<Rightarrow> [] | Some cb \<Rightarrow> [OnErrorCall oe])))
    in trace (snd (execute dec conv this (Resolved data) w)) =
         trace w @ started @ [ListenerStop, CacheDelete identifier]
           @ (case dec data of
                Inl x \<Rightarrow> error_handler x
              | Inr ap \<Rightarrow>
                  (case priv_onSuccess this of
                     None \<Rightarrow> []
                   | Some cb \<Rightarrow>
                       OnSuccessCall ap # (case cb ap of None \<Rightarrow> [] | Some x \<Rightarrow> error_handler x)))
       \<and> trace (snd (execute dec conv this (Rejected error) w)) =
           trace w @ started @ error_handler error
       \<and> cache_get identifier (cache (snd (execute dec conv this (Resolved data) w))) = None
       \<and> cache_get identifier (cache (snd (execute dec conv this (Rejected error) w))) = None
       \<and> \<not> active (listener (snd (execute dec conv this (Resolved data) w)))
       \<and> \<not> active (listener (snd (execute dec conv this (Rejected error) w))))"
proof -
  have resolved: "trace (snd (execute dec conv this (Resolved data) w)) =
      trace w @ [CachePut (execute_operation this), NativeCall (execute_message this)]
        @ [ListenerStop, CacheDelete (OutOfBandAuthenticationImpl.operationId this)]
        @ (case dec data of
             Inl x \<Rightarrow>
               [ListenerStop, CacheDelete (OutOfBandAuthenticationImpl.operationId this)]
                 @ (case conv x of
                      Inl y \<Rightarrow> []
                    | Inr oe \<Rightarrow>
                        (case priv_onError this of None \<Rightarrow> [] | Some cb \<Rightarrow> [OnErrorCall oe]))
           | Inr ap \<Rightarrow>
               (case priv_onSuccess this of
                  None \<Rightarrow> []
                | Some cb \<Rightarrow>
                    OnSuccessCall ap #
                    (case cb ap of
                       None \<Rightarrow> []
                     | Some x \<Rightarrow>
                         [ListenerStop, CacheDelete (OutOfBandAuthenticationImpl.operationId this)]
                           @ (case conv x of
                                Inl y \<Rightarrow> []
                              | Inr oe \<Rightarrow>
                                  (case priv_onError this of
                                     None \<Rightarrow> [] | Some cb \<Rightarrow> [OnErrorCall oe])))))"
    by (simp add: execute_resolved_trace)
  have rejected: "trace (snd (execute dec conv this (Rejected error) w)) =
      trace w @ [CachePut (execute_operation this), NativeCall (execute_message this)]
        @ [ListenerStop, CacheDelete (OutOfBandAuthenticationImpl.operationId this)]
        @ (case conv error of
             Inl y \<Rightarrow> []
           | Inr oe \<Rightarrow> (case priv_onError this of None \<Rightarrow> [] | Some cb \<Rightarrow> [OnErrorCall oe]))"
    by (simp add: execute_rejected_trace)
  have rejected_cache:
    "cache_get (OutOfBandAuthenticationImpl.operationId this)
       (cache (snd (execute dec conv this (Rejected error) w))) = None"
    by (simp add: execute_rejected snd_settle on_rejected_cache cache_get_def cache_delete_def)
  have rejected_listener:
    "\<not> active (listener (snd (execute dec conv this (Rejected error) w)))"
    by (simp add: execute_rejected snd_settle on_rejected_listener listener_stop_inactive)
  have resolved_cache:
    "cache_get (OutOfBandAuthenticationImpl.operationId this)
       (cache (snd (execute dec conv this (Resolved data) w))) = None"
    by (simp add: cache_get_def execute_resolved_cache)
  show ?thesis
    unfolding Let_def
    using resolved rejected resolved_cache rejected_cache rejected_listener
      execute_resolved_listener [of dec conv this data w]
    by (intro conjI) assumption+
qed

text \<open>
  Claim C1 as stated fails. The operation \<open>op-42\<close> has a success callback, the cache
  holds one more operation, and the native call succeeds with a payload that decodes
  (the decoder reads the payload's \<open>authorizationProvider\<close>): the cache entry is deleted
  before the success callback is invoked, not after, and the listener is stopped although
  an entry remains in the cache.
\<close>

theorem execute_callback_not_before_delete:
  "(let this = (new_OutOfBandAuthenticationImpl None ''op-42'')
                 \<lparr>priv_onSuccess := Some (\<lambda>a. None)\<rparr>
               :: (json, js_error) OutOfBandAuthenticationImpl;
        other = execute_operation
                  (new_OutOfBandAuthenticationImpl None ''other''
                    :: (json, js_error) OutOfBandAuthenticationImpl);
        w = \<lparr>cache = [''other'' \<mapsto> other], listener = \<lparr>active = True\<rparr>, trace = []\<rparr>;
        dec = (\<lambda>data. case get_prop data ''authorizationProvider'' of
                         Inl x \<Rightarrow> Inl x
                       | Inr v \<Rightarrow> Inr (if truthy v then Some v else None));
        payload = JObj [(''operationId'', JStr ''op-42''),
                        (''authorizationProvider'', JStr ''cookie'')];
        w' = snd (execute dec Inr this (Resolved payload) w)
    in trace w' = [CachePut (execute_operation this), NativeCall (execute_message this),
                   ListenerStop, CacheDelete ''op-42'', OnSuccessCall (Some (JStr ''cookie''))]
       \<and> occurs_before (CacheDelete ''op-42'') (OnSuccessCall (Some (JStr ''cookie''))) (trace w')
       \<and> \<not> occurs_before (OnSuccessCall (Some (JStr ''cookie''))) (CacheDelete ''op-42'') (trace w')
       \<and> \<not> active (listener w')
       \<and> cache_get ''other'' (cache w') = Some other)"
  by (simp add: execute_def execute_start_def on_fulfilled_def finish_def do_put_def do_stop_def
      do_delete_def record_event_def Let_def cache_put_def cache_delete_def cache_get_def
      listener_stop_def occurs_before_def execute_operation_def execute_message_def
      new_OutOfBandAuthenticationImpl_def)

lemma success_calls_append: "success_calls (xs @ ys) = success_calls xs + success_calls ys"
  by (simp add: success_calls_def)

lemma error_calls_append: "error_calls (xs @ ys) = error_calls xs + error_calls ys"
  by (simp add: error_calls_def)

lemma execute_rejected_counts:
  "success_calls (trace (snd (execute dec conv this (Rejected error) w)))
     = success_calls (trace w)
   \<and> error_calls (trace (snd (execute dec conv this (Rejected error) w)))
     = error_calls (trace w)
       + (case conv error of
            Inl y \<Rightarrow> 0
          | Inr oe \<Rightarrow> if priv_onError this = None then 0 else 1)"
  unfolding execute_rejected_trace success_calls_append error_calls_append
  by (simp add: success_calls_def error_calls_def split: option.split sum.split)

lemma execute_resolved_undecodable_counts:
  assumes "dec data = Inl x"
  shows "success_calls (trace (snd (execute dec conv this (Resolved data) w)))
     = success_calls (trace w)
   \<and> error_calls (trace (snd (execute dec conv this (Resolved data) w)))
     = error_calls (trace w)
       + (case conv x of
            Inl y \<Rightarrow> 0
          | Inr oe \<Rightarrow> if priv_onError this = None then 0 else 1)"
  unfolding execute_resolved_trace success_calls_append error_calls_append
  by (simp add: assms success_calls_def error_calls_def split: option.split sum.split)

lemma execute_resolved_normal_counts:
  assumes "dec data = Inr ap"
    and "case priv_onSuccess this of None \<Rightarrow> True | Some cb \<Rightarrow> cb ap = None"
  shows "success_calls (trace (snd (execute dec conv this (Resolved data) w)))
     = success_calls (trace w) + (if priv_onSuccess this = None then 0 else 1)
   \<and> error_calls (trace (snd (execute dec conv this (Resolved data) w)))
     = error_calls (trace w)"
proof (cases "priv_onSuccess this")
  case None
  then show ?thesis
    unfolding execute_resolved_trace success_calls_append error_calls_append
    by (simp add: assms(1) success_calls_def error_calls_def)
next
  case (Some cb)
  with assms(2) have "cb ap = None" by simp
  with Some show ?thesis
    unfolding execute_resolved_trace success_calls_append error_calls_append
    by (simp add: assms(1) success_calls_def error_calls_def)
qed

text \<open>
  Claim C2, as the code has it. A callback that is not configured is skipped, and the
  error callback is skipped when the error converter throws. Apart from that: when the
  native call fails, the error callback is invoked exactly once and the success callback
  is not invoked; when the native call succeeds with a payload that does not decode, the
  same holds; when the native call succeeds, the payload decodes and the success callback
  (if any) returns normally, the success callback is invoked exactly once and the error
  callback is not invoked. So, with both callbacks configured and an error converter
  that returns, exactly one of them is invoked, exactly once, in each of these cases.
\<close>

theorem execute_one_callback:
  "success_calls (trace (snd (execute dec conv this (Rejected error) w)))
     = success_calls (trace w)
   \<and> error_calls (trace (snd (execute dec conv this (Rejected error) w)))
     = error_calls (trace w)
       + (case conv error of
            Inl y \<Rightarrow> 0
          | Inr oe \<Rightarrow> if priv_onError this = None then 0 else 1)
   \<and> (\<forall>x. dec data = Inl x \<longrightarrow>
         success_calls (trace (snd (execute dec conv this (Resolved data) w)))
           = success_calls (trace w)
         \<and> error_calls (trace (snd (execute dec conv this (Resolved data) w)))
           = error_calls (trace w)
             + (case conv x of
                  Inl y \<Rightarrow> 0
                | Inr oe \<Rightarrow> if priv_onError this = None then 0 else 1))
   \<and> (\<forall>ap. dec data = Inr ap
            \<and> (case priv_onSuccess this of None \<Rightarrow> True | Some cb \<Rightarrow> cb ap = None) \<longrightarrow>
         success_calls (trace (snd (execute dec conv this (Resolved data) w)))
           = success_calls (trace w) + (if priv_onSuccess this = None then 0 else 1)
         \<and> error_calls (trace (snd (execute dec conv this (Resolved data) w)))
           = error_calls (trace w))"
  using execute_rejected_counts [of dec conv this error w]
    execute_resolved_undecodable_counts [of dec data _ conv this w]
    execute_resolved_normal_counts [of dec data _ this conv w]
  by blast

theorem execute_one_callback_witness:
  "(let this = (new_OutOfBandAuthenticationImpl None ''op-42'')
                 \<lparr>priv_onSuccess := Some (\<lambda>a. None), priv_onError := Some (\<lambda>e. None)\<rparr>
               :: (json, js_error) OutOfBandAuthenticationImpl;
        w = \<lparr>cache = Map.empty, listener = \<lparr>active = True\<rparr>, trace = []\<rparr>;
        dec = (\<lambda>data. case get_prop data ''authorizationProvider'' of
                         Inl x \<Rightarrow> Inl x
                       | Inr v \<Rightarrow> Inr (if truthy v then Some v else None));
        payload = JObj [(''operationId'', JStr ''op-42''),
                        (''authorizationProvider'', JStr ''cookie'')]
    in dec JNull = Inl TypeError
       \<and> success_calls (trace (snd (execute dec Inr this (Resolved JNull) w))) = 0
       \<and> error_calls (trace (snd (execute dec Inr this (Resolved JNull) w))) = 1
       \<and> dec payload = Inr (Some (JStr ''cookie''))
       \<and> (case priv_onSuccess this of None \<Rightarrow> True | Some cb \<Rightarrow> cb (Some (JStr ''cookie'')) = None)
       \<and> success_calls (trace (snd (execute dec Inr this (Resolved payload) w))) = 1
       \<and> error_calls (trace (snd (execute dec Inr this (Resolved payload) w))) = 0
       \<and> success_calls (trace (snd (execute dec Inr this (Rejected TypeError) w))) = 0
       \<and> error_calls (trace (snd (execute dec Inr this (Rejected TypeError) w))) = 1)"
  using
    execute_one_callback
      [of "\<lambda>data. case get_prop data ''authorizationProvider'' of
                    Inl x \<Rightarrow> Inl x
                  | Inr v \<Rightarrow> Inr (if truthy v then Some v else None)"
          Inr
          "(new_OutOfBandAuthenticationImpl None ''op-42'')
             \<lparr>priv_onSuccess := Some (\<lambda>a. None), priv_onError := Some (\<lambda>e. None)\<rparr>"
          TypeError
          "\<lparr>cache = Map.empty, listener = \<lparr>active = True\<rparr>, trace = []\<rparr>"
          JNull]
    execute_one_callback
      [of "\<lambda>data. case get_prop data ''authorizationProvider'' of
                    Inl x \<Rightarrow> Inl x
                  | Inr v \<Rightarrow> Inr (if truthy v then Some v else None)"
          Inr
          "(new_OutOfBandAuthenticationImpl None ''op-42'')
             \<lparr>priv_onSuccess := Some (\<lambda>a. None), priv_onError := Some (\<lambda>e. None)\<rparr>"
          TypeError
          "\<lparr>cache = Map.empty, listener = \<lparr>active = True\<rparr>, trace = []\<rparr>"
          "JObj [(''operationId'', JStr ''op-42''), (''authorizationProvider'', JStr ''cookie'')]"]
  by (simp add: Let_def success_calls_def error_calls_def new_OutOfBandAuthenticationImpl_def)

text \<open>
  Claim C2 as stated fails. With no error callback configured, a failing native call
  invokes no callback at all. With both callbacks configured and a success callback that
  throws, a succeeding native call invokes the success callback and then the error
  callback.
\<close>

theorem execute_not_exactly_one_callback:
  "(let this = (new_OutOfBandAuthenticationImpl None ''op-42'')
                 \<lparr>priv_onSuccess := Some (\<lambda>a. None)\<rparr>
               :: (json, js_error) OutOfBandAuthenticationImpl;
        w = \<lparr>cache = Map.empty, listener = \<lparr>active = True\<rparr>, trace = []\<rparr>;
        dec = (\<lambda>data. case get_prop data ''authorizationProvider'' of
                         Inl x \<Rightarrow> Inl x
                       | Inr v \<Rightarrow> Inr (if truthy v then Some v else None));
        tr = trace (snd (execute dec Inr this (Rejected TypeError) w))
    in success_calls tr = 0 \<and> error_calls tr = 0)
   \<and> (let this = (new_OutOfBandAuthenticationImpl None ''op-42'')
                 \<lparr>priv_onSuccess := Some (\<lambda>a. Some TypeError), priv_onError := Some (\<lambda>e. None)\<rparr>
               :: (json, js_error) OutOfBandAuthenticationImpl;
        w = \<lparr>cache = Map.empty, listener = \<lparr>active = True\<rparr>, trace = []\<rparr>;
        dec = (\<lambda>data. case get_prop data ''authorizationProvider'' of
                         Inl x \<Rightarrow> Inl x
                       | Inr v \<Rightarrow> Inr (if truthy v then Some v else None));
        payload = JObj [(''operationId'', JStr ''op-42''),
                        (''authorizationProvider'', JStr ''cookie'')];
        tr = trace (snd (execute dec Inr this (Resolved payload) w))
    in success_calls tr = 1 \<and> error_calls tr = 1
       \<and> tr = [CachePut (execute_operation this), NativeCall (execute_message this),
               ListenerStop, CacheDelete ''op-42'', OnSuccessCall (Some (JStr ''cookie'')),
               ListenerStop, CacheDelete ''op-42'', OnErrorCall TypeError])"
  by (simp add: execute_def execute_start_def on_fulfilled_def on_rejected_def settle_def
      finish_def do_put_def do_stop_def do_delete_def record_event_def Let_def
      success_calls_def error_calls_def new_OutOfBandAuthenticationImpl_def)

end
